theory Spec2Isabelle
  imports Main "HOL-Library.Word"
begin

unbundle bit_operations_syntax

section \<open>The Chronicle Harvester handler of \<^verbatim>\<open>main.py\<close>\<close>

text \<open>
  The module has two functions, \<^verbatim>\<open>ingest_data_entry\<close> and \<^verbatim>\<open>chronicle_harvester_agent\<close>.
  Everything they do goes through the outside world: the storage client, one HTTP GET, the
  clock, the random UUIDs, the uploads and the console. The world is a record that is
  passed through the model and returned updated; what the outside world answers (the
  outcome of the client construction, of the GET, of each upload, each clock reading and
  each UUID) is part of that record, so that every run of the handler is a value of the model.
\<close>

subsection \<open>Python values and exceptions\<close>

text \<open>
  The values \<^verbatim>\<open>response.json()\<close> can return. A \<^verbatim>\<open>dict\<close> keeps its insertion order, which
  \<^verbatim>\<open>json.dumps\<close> writes out, so it is an association list. A float is its 64-bit pattern;
  the handler never looks into one. Strings are lists of 8-bit characters.
\<close>

datatype pyval =
    PNone
  | PBool bool
  | PInt int
  | PFloat "64 word"
  | PStr string
  | PList "pyval list"
  | PDict "(string \<times> pyval) list"

text \<open>
  The exceptions of a run, by the class the two \<^verbatim>\<open>except\<close> clauses look at:
  \<^verbatim>\<open>requests.exceptions.RequestException\<close> (with its subclasses: the connection errors of
  the GET, the \<^verbatim>\<open>HTTPError\<close> of \<^verbatim>\<open>raise_for_status\<close>, the \<^verbatim>\<open>JSONDecodeError\<close> of
  \<^verbatim>\<open>response.json()\<close>), the \<^verbatim>\<open>TypeError\<close> the interpreter raises, and any other subclass of
  \<^verbatim>\<open>Exception\<close>. The string is \<^verbatim>\<open>str(e)\<close>.
\<close>

datatype exn =
    RequestException string
  | TypeError string
  | OtherException string

fun str_exn :: "exn \<Rightarrow> string" where
  "str_exn (RequestException m) = m"
| "str_exn (TypeError m) = m"
| "str_exn (OtherException m) = m"

fun is_request_exception :: "exn \<Rightarrow> bool" where
  "is_request_exception (RequestException m) = True"
| "is_request_exception e = False"

fun type_name :: "pyval \<Rightarrow> string" where
  "type_name PNone = ''NoneType''"
| "type_name (PBool b) = ''bool''"
| "type_name (PInt i) = ''int''"
| "type_name (PFloat f) = ''float''"
| "type_name (PStr s) = ''str''"
| "type_name (PList xs) = ''list''"
| "type_name (PDict kvs) = ''dict''"

definition quoted :: "string \<Rightarrow> string" where
  "quoted s = CHR 0x27 # s @ [CHR 0x27]"

fun is_dict :: "pyval \<Rightarrow> bool" where
  "is_dict (PDict kvs) = True"
| "is_dict v = False"

fun items :: "pyval \<Rightarrow> (string \<times> pyval) list" where
  "items (PDict kvs) = kvs"
| "items v = []"

text \<open>\<^verbatim>\<open>d[k] = v\<close> on a dict: an existing key keeps its place, a new key goes to the end.\<close>

fun dict_set :: "string \<Rightarrow> pyval \<Rightarrow> (string \<times> pyval) list \<Rightarrow> (string \<times> pyval) list" where
  "dict_set k v [] = [(k, v)]"
| "dict_set k v (p # ps) = (if fst p = k then (k, v) # ps else p # dict_set k v ps)"

text \<open>\<^verbatim>\<open>x[k] = v\<close> with a string key, on any value: only a dict accepts it.\<close>

fun setitem :: "pyval \<Rightarrow> string \<Rightarrow> pyval \<Rightarrow> exn + pyval" where
  "setitem (PDict kvs) k v = Inr (PDict (dict_set k v kvs))"
| "setitem (PList xs) k v = Inl (TypeError ''list indices must be integers or slices, not str'')"
| "setitem x k v = Inl (TypeError (quoted (type_name x) @ '' object does not support item assignment''))"

text \<open>
  \<^verbatim>\<open>x[:3]\<close> followed by iteration: a list gives its first three elements, a string its
  first three characters as one-character strings, and nothing else can be sliced (a dict
  raises for the unhashable slice key, \<^verbatim>\<open>KeyError\<close> in later interpreters; both are
  caught by the same clause).
\<close>

fun getslice3 :: "pyval \<Rightarrow> exn + pyval list" where
  "getslice3 (PList xs) = Inr (take 3 xs)"
| "getslice3 (PStr s) = Inr (map (\<lambda>c. PStr [c]) (take 3 s))"
| "getslice3 (PDict kvs) = Inl (TypeError (''unhashable type: '' @ quoted ''slice''))"
| "getslice3 x = Inl (TypeError (quoted (type_name x) @ '' object is not subscriptable''))"

subsection \<open>Formatting: decimal numbers, timestamps, UUIDs\<close>

fun digits :: "nat \<Rightarrow> string" where
  "digits n = (if n < 10 then [''0123456789'' ! n]
               else digits (n div 10) @ [''0123456789'' ! (n mod 10)])"

declare digits.simps [simp del]

text \<open>\<^verbatim>\<open>"%0wd" % n\<close>: at least \<open>w\<close> digits, padded with zeros on the left.\<close>

definition zpad :: "nat \<Rightarrow> nat \<Rightarrow> string" where
  "zpad w n = replicate (w - length (digits n)) CHR ''0'' @ digits n"

text \<open>What \<^verbatim>\<open>datetime.datetime.now()\<close> returns: a naive local time.\<close>

record datetime =
  year :: nat
  month :: nat
  day :: nat
  hour :: nat
  minute :: nat
  second :: nat
  microsecond :: nat

text \<open>
  \<^verbatim>\<open>datetime.isoformat()\<close> of a naive datetime: \<^verbatim>\<open>YYYY-MM-DDTHH:MM:SS\<close>, followed by
  \<^verbatim>\<open>.ffffff\<close> when the microsecond is not zero.
\<close>

definition isoformat :: "datetime \<Rightarrow> string" where
  "isoformat d =
     zpad 4 (year d) @ ''-'' @ zpad 2 (month d) @ ''-'' @ zpad 2 (day d) @ ''T'' @
     zpad 2 (hour d) @ '':'' @ zpad 2 (minute d) @ '':'' @ zpad 2 (second d) @
     (if microsecond d = 0 then [] else ''.'' @ zpad 6 (microsecond d))"

text \<open>\<^verbatim>\<open>UUID.hex\<close>: the 128-bit value as 32 lowercase hexadecimal digits, highest first.\<close>

definition hexdigit :: "nat \<Rightarrow> char" where
  "hexdigit n = ''0123456789abcdef'' ! n"

definition uuid_hex :: "128 word \<Rightarrow> string" where
  "uuid_hex u = map (\<lambda>i. hexdigit (unat (drop_bit (4 * (31 - i)) u AND 15))) [0..<32]"

subsection \<open>The outside world\<close>

text \<open>
  The response of \<^verbatim>\<open>requests.get\<close>: its status code with the reason phrase and the final
  URL (they make the text of the \<^verbatim>\<open>HTTPError\<close>), and what \<^verbatim>\<open>response.json()\<close> does on
  its body: the decoded value, or the exception of the decoder.
\<close>

record response =
  status_code :: nat
  reason :: string
  url :: string
  json_result :: "exn + pyval"

text \<open>
  \<^verbatim>\<open>Response.raise_for_status()\<close>: an \<^verbatim>\<open>HTTPError\<close> (a \<^verbatim>\<open>RequestException\<close>) for a status
  of 400 to 599, as line 55 says (\<^verbatim>\<open>4xx or 5xx\<close>), and nothing for any other status.
\<close>

definition raise_for_status :: "response \<Rightarrow> exn + unit" where
  "raise_for_status r =
     (if 400 \<le> status_code r \<and> status_code r < 500 then
        Inl (RequestException
          (digits (status_code r) @ '' Client Error: '' @ reason r @ '' for url: '' @ url r))
      else if 500 \<le> status_code r \<and> status_code r < 600 then
        Inl (RequestException
          (digits (status_code r) @ '' Server Error: '' @ reason r @ '' for url: '' @ url r))
      else Inr ())"

text \<open>
  The text \<^verbatim>\<open>json.dumps(v, indent=n)\<close> is kept as the value and the indentation it was
  written from; \<^verbatim>\<open>json.loads\<close> of such a text gives the value back. The values of a run
  come from the JSON decoder, with three strings added, so \<^verbatim>\<open>json.dumps\<close> does not raise.
\<close>

datatype json_text = JsonText pyval nat

definition json_dumps :: "pyval \<Rightarrow> nat \<Rightarrow> json_text" where
  "json_dumps v indent = JsonText v indent"

fun json_loads :: "json_text \<Rightarrow> pyval" where
  "json_loads (JsonText v indent) = v"

text \<open>One \<^verbatim>\<open>blob.upload_from_string\<close> that went through.\<close>

record blob =
  bucket_name :: string
  name :: string
  data :: json_text
  content_type :: string

text \<open>
  The world. \<open>environ\<close> is \<^verbatim>\<open>os.environ\<close>; \<open>client_outcome\<close> is what
  \<^verbatim>\<open>storage.Client(project=p)\<close> does (an exception, or a client); \<open>get_outcome\<close> is what
  \<^verbatim>\<open>requests.get(url)\<close> does; \<open>clock\<close> and \<open>uuids\<close> are the successive answers of
  \<^verbatim>\<open>datetime.now()\<close> and \<^verbatim>\<open>uuid4()\<close>, \<open>ticks\<close> and \<open>draws\<close> count the answers
  consumed; \<open>upload_outcome\<close> says which upload attempts raise, \<open>attempts\<close> counts them;
  \<open>uploads\<close> are the uploads that went through, oldest first; \<open>console\<close> are the printed lines.
\<close>

record world =
  environ :: "string \<Rightarrow> string option"
  client_outcome :: "string \<Rightarrow> exn option"
  get_outcome :: "string \<Rightarrow> exn + response"
  clock :: "nat \<Rightarrow> datetime"
  ticks :: nat
  uuids :: "nat \<Rightarrow> 128 word"
  draws :: nat
  upload_outcome :: "nat \<Rightarrow> exn option"
  attempts :: nat
  uploads :: "blob list"
  console :: "string list"

definition now :: "world \<Rightarrow> datetime \<times> world" where
  "now w = (clock w (ticks w), w\<lparr>ticks := Suc (ticks w)\<rparr>)"

definition uuid4 :: "world \<Rightarrow> 128 word \<times> world" where
  "uuid4 w = (uuids w (draws w), w\<lparr>draws := Suc (draws w)\<rparr>)"

definition print :: "string \<Rightarrow> world \<Rightarrow> world" where
  "print line w = w\<lparr>console := console w @ [line]\<rparr>"

definition upload_from_string ::
  "string \<Rightarrow> string \<Rightarrow> json_text \<Rightarrow> string \<Rightarrow> world \<Rightarrow> (exn + unit) \<times> world" where
  "upload_from_string bucket file_name json_data ctype w =
     (case upload_outcome w (attempts w) of
        Some e \<Rightarrow> (Inl e, w\<lparr>attempts := Suc (attempts w)\<rparr>)
      | None \<Rightarrow>
          (Inr (),
           w\<lparr>attempts := Suc (attempts w),
             uploads := uploads w @
               [\<lparr>bucket_name = bucket, name = file_name, data = json_data,
                 content_type = ctype\<rparr>]\<rparr>))"

subsection \<open>Configuration (lines 11 to 17)\<close>

definition GCP_PROJECT_ID :: "world \<Rightarrow> string" where
  "GCP_PROJECT_ID w =
     (case environ w ''GCP_PROJECT_ID'' of Some v \<Rightarrow> v | None \<Rightarrow> ''nexusscout'')"

definition CLOUD_STORAGE_BUCKET :: "world \<Rightarrow> string" where
  "CLOUD_STORAGE_BUCKET w =
     (case environ w ''CLOUD_STORAGE_BUCKET'' of
        Some v \<Rightarrow> v
      | None \<Rightarrow> ''nexusscout-raw-data-sriramo-23jun2025-1'')"

definition MOCK_DATA_URL :: string where
  "MOCK_DATA_URL = ''https://jsonplaceholder.typicode.com/posts''"

subsection \<open>\<^verbatim>\<open>ingest_data_entry\<close> (lines 19 to 39)\<close>

definition file_name_of :: "datetime \<Rightarrow> 128 word \<Rightarrow> string" where
  "file_name_of t u = ''raw_data/'' @ isoformat t @ ''-'' @ take 8 (uuid_hex u) @ ''.json''"

definition ingest_data_entry :: "pyval \<Rightarrow> world \<Rightarrow> (exn + string) \<times> world" where
  "ingest_data_entry entry_data w =
     (let (t, w1) = now w;
          (u, w2) = uuid4 w1;
          file_name = file_name_of t u;
          json_data = json_dumps entry_data 2
      in case upload_from_string (CLOUD_STORAGE_BUCKET w2) file_name json_data
                ''application/json'' w2 of
           (Inl e, w3) \<Rightarrow> (Inl e, w3)
         | (Inr _, w3) \<Rightarrow>
             (Inr file_name, print (''Uploaded '' @ file_name @ '' to Cloud Storage.'') w3))"

subsection \<open>\<^verbatim>\<open>chronicle_harvester_agent\<close> (lines 41 to 84)\<close>

text \<open>The three assignments of lines 65 to 67; the clock was read before the first one.\<close>

definition annotate :: "string \<Rightarrow> pyval \<Rightarrow> exn + pyval" where
  "annotate stamp entry =
     (case setitem entry ''harvest_timestamp'' (PStr stamp) of
        Inl e \<Rightarrow> Inl e
      | Inr e1 \<Rightarrow>
          (case setitem e1 ''source_url'' (PStr MOCK_DATA_URL) of
             Inl e \<Rightarrow> Inl e
           | Inr e2 \<Rightarrow> setitem e2 ''agent'' (PStr ''ChronicleHarvester'')))"

text \<open>The loop of lines 63 to 71, over the selected entries; an exception leaves it.\<close>

fun harvest_loop :: "pyval list \<Rightarrow> string list \<Rightarrow> world \<Rightarrow> (exn + string list) \<times> world" where
  "harvest_loop [] uploaded_files w = (Inr uploaded_files, w)"
| "harvest_loop (entry # rest) uploaded_files w =
     (let (t, w1) = now w in
      case annotate (isoformat t) entry of
        Inl e \<Rightarrow> (Inl e, w1)
      | Inr entry' \<Rightarrow>
          (case ingest_data_entry entry' w1 of
             (Inl e, w2) \<Rightarrow> (Inl e, w2)
           | (Inr uploaded_file_name, w2) \<Rightarrow>
               harvest_loop rest (uploaded_files @ [uploaded_file_name]) w2))"

text \<open>
  Lines 54 to 63, up to the slice: the GET, the status check, the decoding and the
  selection of the first three entries. None of them changes the world.
\<close>

definition selected_entries :: "world \<Rightarrow> exn + pyval list" where
  "selected_entries w =
     (case get_outcome w MOCK_DATA_URL of
        Inl e \<Rightarrow> Inl e
      | Inr response \<Rightarrow>
          (case raise_for_status response of
             Inl e \<Rightarrow> Inl e
           | Inr _ \<Rightarrow>
               (case json_result response of
                  Inl e \<Rightarrow> Inl e
                | Inr mock_data_entries \<Rightarrow> getslice3 mock_data_entries)))"

text \<open>The body of the \<^verbatim>\<open>try\<close>, lines 53 to 75, up to the value it returns.\<close>

definition try_block :: "world \<Rightarrow> (exn + string list) \<times> world" where
  "try_block w =
     (case selected_entries w of
        Inl e \<Rightarrow> (Inl e, w)
      | Inr selected \<Rightarrow>
          (case harvest_loop selected [] w of
             (Inl e, w') \<Rightarrow> (Inl e, w')
           | (Inr uploaded_files, w') \<Rightarrow>
               (Inr uploaded_files,
                print (''Chronicle Harvester Agent: Successfully harvested and uploaded ''
                       @ digits (length uploaded_files) @ '' entries.'') w')))"

text \<open>
  The handler. Its value is the exception that leaves it (\<open>Inl\<close>) or the pair it returns
  (\<open>Inr\<close>): a dict and a status code. Line 50 stands before the \<^verbatim>\<open>try\<close>.
\<close>

definition success_body :: "string list \<Rightarrow> pyval" where
  "success_body uploaded_files =
     PDict [(''status'', PStr ''success''), (''uploaded_files'', PList (map PStr uploaded_files))]"

definition error_body :: "string \<Rightarrow> pyval" where
  "error_body message = PDict [(''status'', PStr ''error''), (''message'', PStr message)]"

definition chronicle_harvester_agent :: "'r \<Rightarrow> world \<Rightarrow> (exn + pyval \<times> int) \<times> world" where
  "chronicle_harvester_agent request w0 =
     (let w = print ''Chronicle Harvester Agent: Initiating data collection...'' w0 in
      case client_outcome w (GCP_PROJECT_ID w) of
        Some e \<Rightarrow> (Inl e, w)
      | None \<Rightarrow>
          (case try_block w of
             (Inr uploaded_files, w') \<Rightarrow> (Inr (success_body uploaded_files, 200), w')
           | (Inl e, w') \<Rightarrow>
               (if is_request_exception e then
                  (Inr (error_body (''HTTP request failed: '' @ str_exn e), 500),
                   print (''Chronicle Harvester Agent: HTTP request failed: '' @ str_exn e) w')
                else
                  (Inr (error_body (''An unexpected error occurred: '' @ str_exn e), 500),
                   print (''Chronicle Harvester Agent: An unexpected error occurred: '' @ str_exn e)
                     w'))))"

subsection \<open>What a run is expected to upload\<close>

text \<open>
  The dict the three assignments make of a dict with the items \<open>kvs\<close>, and the object the
  iteration number \<open>i\<close> (from 0) of a loop started in the world \<open>w\<close> uploads for the
  entry \<open>entry\<close>: the iteration reads the clock twice (line 65, then line 24), draws one
  UUID and makes one upload attempt.
\<close>

definition annotated :: "string \<Rightarrow> (string \<times> pyval) list \<Rightarrow> (string \<times> pyval) list" where
  "annotated stamp kvs =
     dict_set ''agent'' (PStr ''ChronicleHarvester'')
       (dict_set ''source_url'' (PStr MOCK_DATA_URL)
          (dict_set ''harvest_timestamp'' (PStr stamp) kvs))"

definition expected_blob :: "world \<Rightarrow> nat \<Rightarrow> pyval \<Rightarrow> blob" where
  "expected_blob w i entry =
     \<lparr>bucket_name = CLOUD_STORAGE_BUCKET w,
      name = file_name_of (clock w (ticks w + 2 * i + 1)) (uuids w (draws w + i)),
      data = JsonText (PDict (annotated (isoformat (clock w (ticks w + 2 * i))) (items entry))) 2,
      content_type = ''application/json''\<rparr>"

definition expected_blobs :: "world \<Rightarrow> pyval list \<Rightarrow> nat \<Rightarrow> blob list" where
  "expected_blobs w sel k = map (\<lambda>i. expected_blob w i (sel ! i)) [0..<k]"

text \<open>The iteration \<open>i\<close> goes through: the entry is a dict and the upload does not raise.\<close>

definition iteration_ok :: "world \<Rightarrow> pyval list \<Rightarrow> nat \<Rightarrow> bool" where
  "iteration_ok w sel i \<longleftrightarrow> is_dict (sel ! i) \<and> upload_outcome w (attempts w + i) = None"

text \<open>The world after \<open>k\<close> iterations that went through.\<close>

definition after_iterations :: "world \<Rightarrow> pyval list \<Rightarrow> nat \<Rightarrow> world" where
  "after_iterations w sel k =
     w\<lparr>ticks := ticks w + 2 * k,
       draws := draws w + k,
       attempts := attempts w + k,
       uploads := uploads w @ expected_blobs w sel k,
       console := console w @
         map (\<lambda>b. ''Uploaded '' @ name b @ '' to Cloud Storage.'') (expected_blobs w sel k)\<rparr>"

text \<open>The uploads a run added: those of the world after it that the world before it lacks.\<close>

definition new_uploads :: "world \<Rightarrow> world \<Rightarrow> blob list" where
  "new_uploads w w' = drop (length (uploads w)) (uploads w')"

text \<open>The message of the error result, by the \<^verbatim>\<open>except\<close> clause that catches \<open>e\<close>.\<close>

definition error_message :: "exn \<Rightarrow> string" where
  "error_message e =
     (if is_request_exception e then ''HTTP request failed: ''
      else ''An unexpected error occurred: '') @ str_exn e"

text \<open>
  The decoded bodies the loop cannot get through: a value that cannot be sliced (a dict, a
  number, a boolean, \<^verbatim>\<open>None\<close>), a string that is not empty (its characters are not dicts),
  and a list with an element that is not a dict among its first three.
\<close>

fun rejected_feed :: "pyval \<Rightarrow> bool" where
  "rejected_feed (PList xs) = list_ex (\<lambda>x. \<not> is_dict x) (take 3 xs)"
| "rejected_feed (PStr s) = (s \<noteq> [])"
| "rejected_feed v = True"

subsection \<open>Example inputs\<close>

text \<open>
  A clock that advances by one second and 250 microseconds at each reading, a UUID source
  whose first eight hexadecimal digits count up from \<^verbatim>\<open>1a2b3c4d\<close>, and a world with no
  environment variable set, built from the outcome of the client construction, the outcome
  of the GET and the outcomes of the upload attempts. The feed is the one of the
  end-to-end scenario.
\<close>

definition example_clock :: "nat \<Rightarrow> datetime" where
  "example_clock n =
     \<lparr>year = 2025, month = 6, day = 23, hour = 10, minute = 15, second = 30 + n,
      microsecond = 250 * n\<rparr>"

definition example_uuids :: "nat \<Rightarrow> 128 word" where
  "example_uuids n = 0x1a2b3c4d5e6f40008000000000000001 + push_bit 96 (of_nat n)"

definition example_response :: "nat \<Rightarrow> string \<Rightarrow> exn + pyval \<Rightarrow> response" where
  "example_response code why body =
     \<lparr>status_code = code, reason = why, url = MOCK_DATA_URL, json_result = body\<rparr>"

definition example_world :: "exn option \<Rightarrow> exn + response \<Rightarrow> (nat \<Rightarrow> exn option) \<Rightarrow> world" where
  "example_world c g u =
     \<lparr>environ = (\<lambda>k. None), client_outcome = (\<lambda>p. c), get_outcome = (\<lambda>a. g),
      clock = example_clock, ticks = 0, uuids = example_uuids, draws = 0,
      upload_outcome = u, attempts = 0, uploads = [], console = []\<rparr>"

definition example_feed :: pyval where
  "example_feed =
     PList [PDict [(''id'', PInt 1), (''title'', PStr ''a'')],
            PDict [(''id'', PInt 2), (''title'', PStr ''b'')]]"

section \<open>Properties\<close>

subsection \<open>Dicts and the annotation\<close>

text \<open>
  What the assignment does to a dict, read as a map and as a list of keys, and what the
  three assignments of the loop make of an entry.
\<close>

lemma dict_set_map_of: "map_of (dict_set k v ps) = (map_of ps)(k \<mapsto> v)"
  by (induction ps) auto

lemma dict_set_fresh: "k \<notin> fst ` set ps \<Longrightarrow> dict_set k v ps = ps @ [(k, v)]"
  by (induction ps) auto

lemma dict_set_keys:
  "map fst (dict_set k v ps) = (if k \<in> fst ` set ps then map fst ps else map fst ps @ [k])"
  by (induction ps) auto

lemma dict_set_key_set: "fst ` set (dict_set k v ps) = insert k (fst ` set ps)"
  by (induction ps) auto

lemma annotate_dict: "annotate stamp (PDict kvs) = Inr (PDict (annotated stamp kvs))"
  by (simp add: annotate_def annotated_def)

lemma annotate_not_dict: "\<not> is_dict e \<Longrightarrow> \<exists>m. annotate stamp e = Inl (TypeError m)"
  by (cases e) (simp_all add: annotate_def)

lemma annotated_fresh:
  assumes "''harvest_timestamp'' \<notin> fst ` set kvs" and "''source_url'' \<notin> fst ` set kvs"
    and "''agent'' \<notin> fst ` set kvs"
  shows "annotated stamp kvs =
     kvs @ [(''harvest_timestamp'', PStr stamp), (''source_url'', PStr MOCK_DATA_URL),
            (''agent'', PStr ''ChronicleHarvester'')]"
proof -
  have 1: "dict_set ''harvest_timestamp'' (PStr stamp) kvs = kvs @ [(''harvest_timestamp'', PStr stamp)]"
    using assms(1) by (rule dict_set_fresh)
  have 2: "dict_set ''source_url'' (PStr MOCK_DATA_URL) (kvs @ [(''harvest_timestamp'', PStr stamp)]) =
      (kvs @ [(''harvest_timestamp'', PStr stamp)]) @ [(''source_url'', PStr MOCK_DATA_URL)]"
    using assms(2) by (intro dict_set_fresh) simp
  have 3: "dict_set ''agent'' (PStr ''ChronicleHarvester'')
      ((kvs @ [(''harvest_timestamp'', PStr stamp)]) @ [(''source_url'', PStr MOCK_DATA_URL)]) =
      ((kvs @ [(''harvest_timestamp'', PStr stamp)]) @ [(''source_url'', PStr MOCK_DATA_URL)]) @
      [(''agent'', PStr ''ChronicleHarvester'')]"
    using assms(3) by (intro dict_set_fresh) simp
  show ?thesis by (simp only: annotated_def 1 2 3) simp
qed

lemma annotated_map_of:
  "map_of (annotated stamp kvs) =
     (map_of kvs)(''harvest_timestamp'' \<mapsto> PStr stamp, ''source_url'' \<mapsto> PStr MOCK_DATA_URL,
        ''agent'' \<mapsto> PStr ''ChronicleHarvester'')"
  by (simp add: annotated_def dict_set_map_of)

lemma annotated_keys:
  "map fst (annotated stamp kvs) =
     map fst kvs @ filter (\<lambda>k. k \<notin> fst ` set kvs) [''harvest_timestamp'', ''source_url'', ''agent'']"
  by (simp add: annotated_def dict_set_keys dict_set_key_set)

subsection \<open>Object keys\<close>







subsection \<open>The loop\<close>

text \<open>
  One iteration that goes through, one that raises, and the loop after \<open>k\<close> iterations
  that went through: it has uploaded the expected objects of the first \<open>k\<close> entries.
\<close>

lemma ingest_ok:
  "upload_outcome w (attempts w) = None \<Longrightarrow>
   ingest_data_entry entry w =
     (Inr (file_name_of (clock w (ticks w)) (uuids w (draws w))),
      w\<lparr>ticks := Suc (ticks w), draws := Suc (draws w), attempts := Suc (attempts w),
        uploads := uploads w @
          [\<lparr>bucket_name = CLOUD_STORAGE_BUCKET w,
            name = file_name_of (clock w (ticks w)) (uuids w (draws w)),
            data = JsonText entry 2, content_type = ''application/json''\<rparr>],
        console := console w @
          [''Uploaded '' @ file_name_of (clock w (ticks w)) (uuids w (draws w)) @ '' to Cloud Storage.'']\<rparr>)"
  by (simp add: ingest_data_entry_def now_def uuid4_def upload_from_string_def print_def
      json_dumps_def CLOUD_STORAGE_BUCKET_def Let_def)

lemma ingest_fails:
  "upload_outcome w (attempts w) = Some x \<Longrightarrow>
   ingest_data_entry entry w =
     (Inl x, w\<lparr>ticks := Suc (ticks w), draws := Suc (draws w), attempts := Suc (attempts w)\<rparr>)"
  by (simp add: ingest_data_entry_def now_def uuid4_def upload_from_string_def print_def
      json_dumps_def CLOUD_STORAGE_BUCKET_def Let_def)

lemma loop_step_ok:
  assumes "is_dict e" and "upload_outcome w (attempts w) = None"
  shows "harvest_loop (e # rest) acc w =
     harvest_loop rest (acc @ [name (expected_blob w 0 e)]) (after_iterations w (e # rest) 1)"
proof -
  obtain kvs where e: "e = PDict kvs" using assms(1) by (cases e) simp_all
  show ?thesis
    using assms(2)
    by (simp add: e now_def annotate_dict ingest_ok expected_blob_def after_iterations_def
        expected_blobs_def CLOUD_STORAGE_BUCKET_def)
qed

lemma loop_step_not_dict:
  assumes "\<not> is_dict e"
  shows "\<exists>m. harvest_loop (e # rest) acc w = (Inl (TypeError m), w\<lparr>ticks := Suc (ticks w)\<rparr>)"
proof -
  obtain m where "annotate (isoformat (clock w (ticks w))) e = Inl (TypeError m)"
    using annotate_not_dict [OF assms] by blast
  then show ?thesis by (simp add: now_def)
qed

lemma loop_step_upload_fails:
  assumes "is_dict e" and "upload_outcome w (attempts w) = Some x"
  shows "harvest_loop (e # rest) acc w =
     (Inl x, w\<lparr>ticks := ticks w + 2, draws := Suc (draws w), attempts := Suc (attempts w)\<rparr>)"
proof -
  obtain kvs where e: "e = PDict kvs" using assms(1) by (cases e) simp_all
  show ?thesis
    using assms(2) by (simp add: e now_def annotate_dict ingest_fails)
qed

lemma expected_blob_after:
  "expected_blob (after_iterations w sel k) i e = expected_blob w (k + i) e"
  by (simp add: expected_blob_def after_iterations_def CLOUD_STORAGE_BUCKET_def add.assoc
      distrib_left)

lemma after_iterations_0: "after_iterations w sel 0 = w"
  by (simp add: after_iterations_def expected_blobs_def)

lemma after_iterations_Suc:
  "after_iterations (after_iterations w sel k) (sel ! k # rest) 1 = after_iterations w sel (Suc k)"
  by (simp add: after_iterations_def expected_blobs_def expected_blob_def CLOUD_STORAGE_BUCKET_def)

lemma loop_prefix:
  "k \<le> length sel \<Longrightarrow> \<forall>i<k. iteration_ok w sel i \<Longrightarrow>
   harvest_loop sel acc w =
     harvest_loop (drop k sel) (acc @ map name (expected_blobs w sel k)) (after_iterations w sel k)"
proof (induction k)
  case 0
  then show ?case by (simp add: after_iterations_0 expected_blobs_def)
next
  case (Suc k)
  let ?w = "after_iterations w sel k"
  have k: "k < length sel" using Suc.prems(1) by simp
  have IH: "harvest_loop sel acc w =
     harvest_loop (drop k sel) (acc @ map name (expected_blobs w sel k)) ?w"
    using Suc by simp
  have split: "drop k sel = sel ! k # drop (Suc k) sel"
    using k by (simp add: Cons_nth_drop_Suc)
  have ok: "iteration_ok w sel k" using Suc.prems(2) by simp
  have d: "is_dict (sel ! k)" using ok by (simp add: iteration_ok_def)
  have u: "upload_outcome ?w (attempts ?w) = None"
    using ok by (simp add: iteration_ok_def after_iterations_def)
  have step: "harvest_loop (sel ! k # drop (Suc k) sel) (acc @ map name (expected_blobs w sel k)) ?w =
     harvest_loop (drop (Suc k) sel)
       ((acc @ map name (expected_blobs w sel k)) @ [name (expected_blob ?w 0 (sel ! k))])
       (after_iterations ?w (sel ! k # drop (Suc k) sel) 1)"
    by (rule loop_step_ok [OF d u])
  have names: "(acc @ map name (expected_blobs w sel k)) @ [name (expected_blob ?w 0 (sel ! k))] =
     acc @ map name (expected_blobs w sel (Suc k))"
    by (simp add: expected_blobs_def expected_blob_after)
  show ?case
    using IH split step names after_iterations_Suc [of w sel k "drop (Suc k) sel"] by simp
qed

lemma loop_all_ok:
  assumes "\<forall>i<length sel. iteration_ok w sel i"
  shows "harvest_loop sel acc w =
     (Inr (acc @ map name (expected_blobs w sel (length sel))), after_iterations w sel (length sel))"
  using loop_prefix [of "length sel" sel w acc] assms by simp

lemma loop_fails_at:
  assumes k: "k < length sel" and before: "\<forall>i<k. iteration_ok w sel i"
    and here: "\<not> iteration_ok w sel k"
  shows "\<exists>x w'. harvest_loop sel acc w = (Inl x, w') \<and>
           uploads w' = uploads w @ expected_blobs w sel k \<and>
           (if is_dict (sel ! k) then upload_outcome w (attempts w + k) = Some x
            else \<exists>m. x = TypeError m)"
proof -
  let ?w = "after_iterations w sel k"
  let ?acc = "acc @ map name (expected_blobs w sel k)"
  have pre: "harvest_loop sel acc w = harvest_loop (sel ! k # drop (Suc k) sel) ?acc ?w"
    using loop_prefix [of k sel w acc] k before by (simp add: Cons_nth_drop_Suc)
  have up: "uploads ?w = uploads w @ expected_blobs w sel k"
    by (simp add: after_iterations_def)
  show ?thesis
  proof (cases "is_dict (sel ! k)")
    case False
    obtain m where "harvest_loop (sel ! k # drop (Suc k) sel) ?acc ?w =
        (Inl (TypeError m), ?w\<lparr>ticks := Suc (ticks ?w)\<rparr>)"
      using loop_step_not_dict [OF False] by blast
    then show ?thesis using pre up False by simp
  next
    case True
    then obtain x where x: "upload_outcome w (attempts w + k) = Some x"
      using here by (auto simp: iteration_ok_def)
    then have "upload_outcome ?w (attempts ?w) = Some x"
      by (simp add: after_iterations_def)
    then have "harvest_loop (sel ! k # drop (Suc k) sel) ?acc ?w =
        (Inl x, ?w\<lparr>ticks := ticks ?w + 2, draws := Suc (draws ?w), attempts := Suc (attempts ?w)\<rparr>)"
      by (rule loop_step_upload_fails [OF True])
    then show ?thesis using pre up True x by simp
  qed
qed

lemma expected_blobs_take:
  "k \<le> n \<Longrightarrow> expected_blobs w (take n xs) k = expected_blobs w xs k"
  by (simp add: expected_blobs_def)

lemma length_expected_blobs: "length (expected_blobs w sel k) = k"
  by (simp add: expected_blobs_def)

lemma uploads_after_iterations:
  "uploads (after_iterations w sel k) = uploads w @ expected_blobs w sel k"
  by (simp add: after_iterations_def)

subsection \<open>Whole runs of the handler\<close>

text \<open>
  The four ways a run can go: the client construction raises; the selection raises;
  every iteration goes through; the iteration \<open>k\<close> is the first one that raises.
\<close>

lemma first_failure:
  "(\<forall>i<(n::nat). P i) \<or> (\<exists>k<n. (\<forall>i<k. P i) \<and> \<not> P k)"
proof (induction n)
  case 0
  then show ?case by simp
next
  case (Suc n)
  then show ?case by (metis less_Suc_eq)
qed

lemma print_unchanged:
  "selected_entries (print l w) = selected_entries w"
  "expected_blobs (print l w) sel k = expected_blobs w sel k"
  "iteration_ok (print l w) sel i = iteration_ok w sel i"
  "uploads (print l w) = uploads w"
  "client_outcome (print l w) = client_outcome w"
  "GCP_PROJECT_ID (print l w) = GCP_PROJECT_ID w"
  by (simp_all add: print_def selected_entries_def expected_blobs_def expected_blob_def
      iteration_ok_def GCP_PROJECT_ID_def CLOUD_STORAGE_BUCKET_def)


lemma selected_list:
  assumes "get_outcome w MOCK_DATA_URL = Inr resp" and "raise_for_status resp = Inr ()"
    and "json_result resp = Inr v"
  shows "selected_entries w = getslice3 v"
  using assms by (simp add: selected_entries_def)


lemma run_no_client:
  assumes "client_outcome w (GCP_PROJECT_ID w) = Some x"
  shows "fst (chronicle_harvester_agent request w) = Inl x"
    and "uploads (snd (chronicle_harvester_agent request w)) = uploads w"
  using assms by (simp_all add: chronicle_harvester_agent_def Let_def print_unchanged)

lemma run_no_selection:
  assumes "client_outcome w (GCP_PROJECT_ID w) = None" and "selected_entries w = Inl x"
  shows "fst (chronicle_harvester_agent request w) = Inr (error_body (error_message x), 500)"
    and "uploads (snd (chronicle_harvester_agent request w)) = uploads w"
  using assms
  by (simp_all add: chronicle_harvester_agent_def Let_def print_unchanged try_block_def
      error_message_def)

lemma run_success:
  assumes "client_outcome w (GCP_PROJECT_ID w) = None" and "selected_entries w = Inr sel"
    and "\<forall>i<length sel. iteration_ok w sel i"
  shows "fst (chronicle_harvester_agent request w) =
           Inr (success_body (map name (expected_blobs w sel (length sel))), 200)"
    and "uploads (snd (chronicle_harvester_agent request w)) =
           uploads w @ expected_blobs w sel (length sel)"
  using assms
  by (simp_all add: chronicle_harvester_agent_def Let_def print_unchanged try_block_def
      loop_all_ok uploads_after_iterations)

lemma run_failure:
  assumes "client_outcome w (GCP_PROJECT_ID w) = None" and "selected_entries w = Inr sel"
    and "k < length sel" and "\<forall>i<k. iteration_ok w sel i" and "\<not> iteration_ok w sel k"
  shows "\<exists>x. fst (chronicle_harvester_agent request w) = Inr (error_body (error_message x), 500) \<and>
           uploads (snd (chronicle_harvester_agent request w)) = uploads w @ expected_blobs w sel k \<and>
           (if is_dict (sel ! k) then upload_outcome w (attempts w + k) = Some x
            else \<exists>m. x = TypeError m)"
proof -
  let ?w = "print ''Chronicle Harvester Agent: Initiating data collection...'' w"
  have "\<forall>i<k. iteration_ok ?w sel i" and "\<not> iteration_ok ?w sel k"
    using assms(4,5) by (simp_all add: print_unchanged)
  from loop_fails_at [OF assms(3) this, of "[]"]
  obtain x w' where loop: "harvest_loop sel [] ?w = (Inl x, w')"
    and up: "uploads w' = uploads ?w @ expected_blobs ?w sel k"
    and x: "if is_dict (sel ! k) then upload_outcome ?w (attempts ?w + k) = Some x
            else \<exists>m. x = TypeError m"
    by blast
  have "fst (chronicle_harvester_agent request w) = Inr (error_body (error_message x), 500)"
    using assms(1,2) loop
    by (simp add: chronicle_harvester_agent_def Let_def print_unchanged try_block_def
        error_message_def)
  moreover have "uploads (snd (chronicle_harvester_agent request w)) =
      uploads w @ expected_blobs w sel k"
    using assms(1,2) loop up
    by (simp add: chronicle_harvester_agent_def Let_def print_unchanged try_block_def)
  moreover have "if is_dict (sel ! k) then upload_outcome w (attempts w + k) = Some x
            else \<exists>m. x = TypeError m"
    using x by (auto simp: print_def split: if_splits)
  ultimately show ?thesis by blast
qed

lemma run_not_all_dicts:
  assumes c: "client_outcome w (GCP_PROJECT_ID w) = None" and s: "selected_entries w = Inr sel"
    and n: "\<exists>i<length sel. \<not> is_dict (sel ! i)"
  shows "\<exists>m. fst (chronicle_harvester_agent request w) = Inr (error_body m, 500)"
proof -
  have "\<not> (\<forall>i<length sel. iteration_ok w sel i)"
    using n by (auto simp: iteration_ok_def)
  then obtain k where k: "k < length sel" "\<forall>i<k. iteration_ok w sel i" "\<not> iteration_ok w sel k"
    using first_failure [of "length sel" "iteration_ok w sel"] by blast
  from run_failure [OF c s k, of request]
  obtain x where "fst (chronicle_harvester_agent request w) = Inr (error_body (error_message x), 500)"
    by blast
  then show ?thesis by (intro exI [of _ "error_message x"])
qed

lemma new_uploads_append: "uploads w' = uploads w @ bs \<Longrightarrow> new_uploads w w' = bs"
  by (simp add: new_uploads_def)

lemma run_uploads_general:
  assumes "selected_entries w = Inr sel"
  shows "\<exists>k\<le>length sel. uploads (snd (chronicle_harvester_agent request w)) =
            uploads w @ expected_blobs w sel k \<and> (\<forall>i<k. iteration_ok w sel i)"
proof (cases "client_outcome w (GCP_PROJECT_ID w)")
  case (Some x)
  then have "uploads (snd (chronicle_harvester_agent request w)) = uploads w @ expected_blobs w sel 0"
    by (simp add: run_no_client expected_blobs_def)
  then show ?thesis by (intro exI [of _ 0]) simp
next
  case None
  show ?thesis
  proof (cases "\<forall>i<length sel. iteration_ok w sel i")
    case True
    then show ?thesis
      using run_success(2) [OF None assms True, of request]
      by (intro exI [of _ "length sel"]) simp
  next
    case False
    then obtain k where k: "k < length sel" "\<forall>i<k. iteration_ok w sel i" "\<not> iteration_ok w sel k"
      using first_failure [of "length sel" "iteration_ok w sel"] by blast
    from run_failure [OF None assms k, of request]
    have "uploads (snd (chronicle_harvester_agent request w)) = uploads w @ expected_blobs w sel k"
      by blast
    then show ?thesis using k by (intro exI [of _ k]) simp
  qed
qed


lemma run_returns:
  assumes "client_outcome w (GCP_PROJECT_ID w) = None"
  shows "fst (chronicle_harvester_agent request w) =
     (case fst (try_block (print ''Chronicle Harvester Agent: Initiating data collection...'' w)) of
        Inl e \<Rightarrow> Inr (error_body (error_message e), 500)
      | Inr fs \<Rightarrow> Inr (success_body fs, 200))"
  using assms
  by (simp add: chronicle_harvester_agent_def Let_def print_unchanged error_message_def
      split: prod.splits sum.splits)

lemma success_body_inject: "success_body fs = success_body gs \<longleftrightarrow> fs = gs"
proof -
  have "inj PStr" by (simp add: inj_def)
  then show ?thesis by (simp add: success_body_def inj_map_eq_map)
qed

lemma success_is_not_error: "success_body fs \<noteq> error_body m"
  by (simp add: success_body_def error_body_def)

lemma stored_object:
  assumes s: "selected_entries w = Inr sel"
    and i: "i < length (new_uploads w (snd (chronicle_harvester_agent request w)))"
  shows "new_uploads w (snd (chronicle_harvester_agent request w)) ! i = expected_blob w i (sel ! i)"
    and "is_dict (sel ! i)" and "i < length sel"
proof -
  from run_uploads_general [OF s, of request]
  obtain k where k: "k \<le> length sel"
    and u: "uploads (snd (chronicle_harvester_agent request w)) = uploads w @ expected_blobs w sel k"
    and ok: "\<forall>i<k. iteration_ok w sel i"
    by blast
  have n: "new_uploads w (snd (chronicle_harvester_agent request w)) = expected_blobs w sel k"
    using u by (rule new_uploads_append)
  have ik: "i < k" using i n by (simp add: length_expected_blobs)
  show "new_uploads w (snd (chronicle_harvester_agent request w)) ! i = expected_blob w i (sel ! i)"
    using ik by (simp add: n expected_blobs_def)
  show "is_dict (sel ! i)" using ok ik by (simp add: iteration_ok_def)
  show "i < length sel" using ik k by simp
qed

lemma stored_content:
  assumes "selected_entries w = Inr sel"
    and "i < length (new_uploads w (snd (chronicle_harvester_agent request w)))"
  shows "json_loads (data (new_uploads w (snd (chronicle_harvester_agent request w)) ! i)) =
     PDict (annotated (isoformat (clock w (ticks w + 2 * i))) (items (sel ! i)))"
  by (simp add: stored_object(1) [OF assms] expected_blob_def)



subsection \<open>The example inputs, evaluated\<close>

text \<open>The runs of the handler in the example worlds, for the closed theorems below.\<close>

lemma example_world_fields:
  "environ (example_world c g u) = (\<lambda>k. None)"
  "client_outcome (example_world c g u) = (\<lambda>p. c)"
  "get_outcome (example_world c g u) = (\<lambda>a. g)"
  "clock (example_world c g u) = example_clock"
  "ticks (example_world c g u) = 0"
  "uuids (example_world c g u) = example_uuids"
  "draws (example_world c g u) = 0"
  "upload_outcome (example_world c g u) = u"
  "attempts (example_world c g u) = 0"
  "uploads (example_world c g u) = []"
  by (simp_all add: example_world_def)

lemma example_selected:
  "\<not> (400 \<le> code \<and> code < 600) \<Longrightarrow>
   selected_entries (example_world c (Inr (example_response code why (Inr v))) u) = getslice3 v"
  by (auto simp: selected_entries_def example_world_fields example_response_def
      raise_for_status_def)

lemma example_stamp_0: "isoformat (example_clock 0) = ''2025-06-23T10:15:30''"
  by code_simp

lemma example_stamp_2: "isoformat (example_clock 2) = ''2025-06-23T10:15:32.000500''"
  by code_simp

lemma example_name_0:
  "file_name_of (example_clock 1) (example_uuids 0) =
     ''raw_data/2025-06-23T10:15:31.000250-1a2b3c4d.json''"
  by code_simp

lemma example_name_1:
  "file_name_of (example_clock 3) (example_uuids 1) =
     ''raw_data/2025-06-23T10:15:33.000750-1a2b3c4e.json''"
  by code_simp

lemma example_blob_0:
  "expected_blob (example_world c g u) 0 e =
     \<lparr>bucket_name = ''nexusscout-raw-data-sriramo-23jun2025-1'',
      name = ''raw_data/2025-06-23T10:15:31.000250-1a2b3c4d.json'',
      data = JsonText (PDict (annotated ''2025-06-23T10:15:30'' (items e))) 2,
      content_type = ''application/json''\<rparr>"
  using example_stamp_0 example_name_0
  by (simp add: expected_blob_def example_world_fields CLOUD_STORAGE_BUCKET_def)

lemma example_blob_1:
  "expected_blob (example_world c g u) (Suc 0) e =
     \<lparr>bucket_name = ''nexusscout-raw-data-sriramo-23jun2025-1'',
      name = ''raw_data/2025-06-23T10:15:33.000750-1a2b3c4e.json'',
      data = JsonText (PDict (annotated ''2025-06-23T10:15:32.000500'' (items e))) 2,
      content_type = ''application/json''\<rparr>"
  using example_stamp_2 example_name_1
  by (simp add: expected_blob_def example_world_fields CLOUD_STORAGE_BUCKET_def
      eval_nat_numeral)

lemma example_blobs_1:
  "expected_blobs (example_world c g u) sel (Suc 0) = [expected_blob (example_world c g u) 0 (sel ! 0)]"
  by (simp add: expected_blobs_def)

lemma example_blobs_2:
  "expected_blobs (example_world c g u) sel (Suc (Suc 0)) =
     [expected_blob (example_world c g u) 0 (sel ! 0),
      expected_blob (example_world c g u) (Suc 0) (sel ! Suc 0)]"
  by (simp add: expected_blobs_def)

lemma example_feed_selected:
  "\<not> (400 \<le> code \<and> code < 600) \<Longrightarrow>
   selected_entries (example_world c (Inr (example_response code why (Inr example_feed))) u) =
     Inr [PDict [(''id'', PInt 1), (''title'', PStr ''a'')],
          PDict [(''id'', PInt 2), (''title'', PStr ''b'')]]"
  by (simp add: example_selected example_feed_def)

lemma example_annotated_0:
  "annotated s [(''id'', PInt 1), (''title'', PStr ''a'')] =
     [(''id'', PInt 1), (''title'', PStr ''a''), (''harvest_timestamp'', PStr s),
      (''source_url'', PStr MOCK_DATA_URL), (''agent'', PStr ''ChronicleHarvester'')]"
  by (simp add: annotated_def)

lemma example_feed_ok:
  "u 0 = None \<Longrightarrow> u (Suc 0) = None \<Longrightarrow>
   \<forall>i<length [PDict [(''id'', PInt 1), (''title'', PStr ''a'')],
          PDict [(''id'', PInt 2), (''title'', PStr ''b'')]].
     iteration_ok (example_world c g u)
       [PDict [(''id'', PInt 1), (''title'', PStr ''a'')],
        PDict [(''id'', PInt 2), (''title'', PStr ''b'')]] i"
  by (simp add: iteration_ok_def example_world_fields All_less_Suc)

lemma example_annotated_1:
  "annotated s [(''id'', PInt 2), (''title'', PStr ''b'')] =
     [(''id'', PInt 2), (''title'', PStr ''b''), (''harvest_timestamp'', PStr s),
      (''source_url'', PStr MOCK_DATA_URL), (''agent'', PStr ''ChronicleHarvester'')]"
  by (simp add: annotated_def)

lemma example_run_ok:
  assumes "\<not> (400 \<le> code \<and> code < 600)" and "u 0 = None" and "u (Suc 0) = None"
  shows "fst (chronicle_harvester_agent request
      (example_world None (Inr (example_response code why (Inr example_feed))) u)) =
   Inr (success_body [''raw_data/2025-06-23T10:15:31.000250-1a2b3c4d.json'',
                      ''raw_data/2025-06-23T10:15:33.000750-1a2b3c4e.json''], 200)"
    and "uploads (snd (chronicle_harvester_agent request
      (example_world None (Inr (example_response code why (Inr example_feed))) u))) =
   [\<lparr>bucket_name = ''nexusscout-raw-data-sriramo-23jun2025-1'',
     name = ''raw_data/2025-06-23T10:15:31.000250-1a2b3c4d.json'',
     data = JsonText (PDict
       [(''id'', PInt 1), (''title'', PStr ''a''),
        (''harvest_timestamp'', PStr ''2025-06-23T10:15:30''),
        (''source_url'', PStr MOCK_DATA_URL), (''agent'', PStr ''ChronicleHarvester'')]) 2,
     content_type = ''application/json''\<rparr>,
    \<lparr>bucket_name = ''nexusscout-raw-data-sriramo-23jun2025-1'',
     name = ''raw_data/2025-06-23T10:15:33.000750-1a2b3c4e.json'',
     data = JsonText (PDict
       [(''id'', PInt 2), (''title'', PStr ''b''),
        (''harvest_timestamp'', PStr ''2025-06-23T10:15:32.000500''),
        (''source_url'', PStr MOCK_DATA_URL), (''agent'', PStr ''ChronicleHarvester'')]) 2,
     content_type = ''application/json''\<rparr>]"
proof -
  let ?w = "example_world None (Inr (example_response code why (Inr example_feed))) u"
  have c: "client_outcome ?w (GCP_PROJECT_ID ?w) = None"
    by (simp add: example_world_fields)
  note s = example_feed_selected [OF assms(1)]
  note ok = example_feed_ok [OF assms(2,3)]
  show "fst (chronicle_harvester_agent request ?w) =
   Inr (success_body [''raw_data/2025-06-23T10:15:31.000250-1a2b3c4d.json'',
                      ''raw_data/2025-06-23T10:15:33.000750-1a2b3c4e.json''], 200)"
    using run_success(1) [OF c s ok, of request]
    by (simp add: example_blobs_2 example_blob_0 example_blob_1)
  show "uploads (snd (chronicle_harvester_agent request ?w)) =
   [\<lparr>bucket_name = ''nexusscout-raw-data-sriramo-23jun2025-1'',
     name = ''raw_data/2025-06-23T10:15:31.000250-1a2b3c4d.json'',
     data = JsonText (PDict
       [(''id'', PInt 1), (''title'', PStr ''a''),
        (''harvest_timestamp'', PStr ''2025-06-23T10:15:30''),
        (''source_url'', PStr MOCK_DATA_URL), (''agent'', PStr ''ChronicleHarvester'')]) 2,
     content_type = ''application/json''\<rparr>,
    \<lparr>bucket_name = ''nexusscout-raw-data-sriramo-23jun2025-1'',
     name = ''raw_data/2025-06-23T10:15:33.000750-1a2b3c4e.json'',
     data = JsonText (PDict
       [(''id'', PInt 2), (''title'', PStr ''b''),
        (''harvest_timestamp'', PStr ''2025-06-23T10:15:32.000500''),
        (''source_url'', PStr MOCK_DATA_URL), (''agent'', PStr ''ChronicleHarvester'')]) 2,
     content_type = ''application/json''\<rparr>]"
    using run_success(2) [OF c s ok, of request]
    by (simp add: example_world_fields example_blobs_2 example_blob_0 example_blob_1
        example_annotated_0 example_annotated_1)
qed

lemma example_run_http_500:
  "fst (chronicle_harvester_agent request
      (example_world None (Inr (example_response 500 ''Internal Server Error'' body)) u)) =
   Inr (error_body (''HTTP request failed: 500 Server Error: Internal Server Error for url: '' @
          ''https://jsonplaceholder.typicode.com/posts''), 500)"
proof -
  let ?w = "example_world None (Inr (example_response 500 ''Internal Server Error'' body)) u"
  have d: "digits 500 = ''500''" by code_simp
  have c: "client_outcome ?w (GCP_PROJECT_ID ?w) = None"
    by (simp add: example_world_fields)
  have s: "selected_entries ?w = Inl (RequestException
      (''500 Server Error: Internal Server Error for url: '' @ MOCK_DATA_URL))"
    by (simp add: selected_entries_def example_world_fields example_response_def
        raise_for_status_def d)
  show ?thesis
    using run_no_selection(1) [OF c s, of request]
    by (simp add: error_message_def MOCK_DATA_URL_def)
qed

lemma example_run_upload_fails:
  assumes "\<not> (400 \<le> code \<and> code < 600)" and "u 0 = Some x"
  shows "fst (chronicle_harvester_agent request
      (example_world None (Inr (example_response code why (Inr example_feed))) u)) =
      Inr (error_body (error_message x), 500)"
    and "uploads (snd (chronicle_harvester_agent request
      (example_world None (Inr (example_response code why (Inr example_feed))) u))) = []"
proof -
  let ?w = "example_world None (Inr (example_response code why (Inr example_feed))) u"
  let ?sel = "[PDict [(''id'', PInt 1), (''title'', PStr ''a'')],
          PDict [(''id'', PInt 2), (''title'', PStr ''b'')]]"
  have c: "client_outcome ?w (GCP_PROJECT_ID ?w) = None"
    by (simp add: example_world_fields)
  note s = example_feed_selected [OF assms(1)]
  have k: "0 < length ?sel" "\<forall>i<0. iteration_ok ?w ?sel i" "\<not> iteration_ok ?w ?sel 0"
    using assms(2) by (simp_all add: iteration_ok_def example_world_fields)
  from run_failure [OF c s k, of request]
  obtain y where y: "fst (chronicle_harvester_agent request ?w) = Inr (error_body (error_message y), 500)"
    "uploads (snd (chronicle_harvester_agent request ?w)) = uploads ?w @ expected_blobs ?w ?sel 0"
    "upload_outcome ?w (attempts ?w + 0) = Some y"
    by auto
  have "y = x" using y(3) assms(2) by (simp add: example_world_fields)
  then show "fst (chronicle_harvester_agent request ?w) = Inr (error_body (error_message x), 500)"
    using y(1) by simp
  show "uploads (snd (chronicle_harvester_agent request ?w)) = []"
    using y(2) by (simp add: example_world_fields expected_blobs_def)
qed

lemma example_run_second_upload_fails:
  assumes "\<not> (400 \<le> code \<and> code < 600)" and "u 0 = None" and "u (Suc 0) = Some x"
  shows "fst (chronicle_harvester_agent request
      (example_world None (Inr (example_response code why (Inr example_feed))) u)) =
      Inr (error_body (error_message x), 500)"
    and "uploads (snd (chronicle_harvester_agent request
      (example_world None (Inr (example_response code why (Inr example_feed))) u))) =
      [\<lparr>bucket_name = ''nexusscout-raw-data-sriramo-23jun2025-1'',
        name = ''raw_data/2025-06-23T10:15:31.000250-1a2b3c4d.json'',
        data = JsonText (PDict
          [(''id'', PInt 1), (''title'', PStr ''a''),
           (''harvest_timestamp'', PStr ''2025-06-23T10:15:30''),
           (''source_url'', PStr MOCK_DATA_URL), (''agent'', PStr ''ChronicleHarvester'')]) 2,
        content_type = ''application/json''\<rparr>]"
proof -
  let ?w = "example_world None (Inr (example_response code why (Inr example_feed))) u"
  let ?sel = "[PDict [(''id'', PInt 1), (''title'', PStr ''a'')],
          PDict [(''id'', PInt 2), (''title'', PStr ''b'')]]"
  have c: "client_outcome ?w (GCP_PROJECT_ID ?w) = None"
    by (simp add: example_world_fields)
  note s = example_feed_selected [OF assms(1)]
  have k: "Suc 0 < length ?sel" "\<forall>i<Suc 0. iteration_ok ?w ?sel i" "\<not> iteration_ok ?w ?sel (Suc 0)"
    using assms(2,3) by (simp_all add: iteration_ok_def example_world_fields)
  from run_failure [OF c s k, of request]
  obtain y where y: "fst (chronicle_harvester_agent request ?w) = Inr (error_body (error_message y), 500)"
    "uploads (snd (chronicle_harvester_agent request ?w)) = uploads ?w @ expected_blobs ?w ?sel (Suc 0)"
    "upload_outcome ?w (attempts ?w + Suc 0) = Some y"
    by auto
  have "y = x" using y(3) assms(3) by (simp add: example_world_fields)
  then show "fst (chronicle_harvester_agent request ?w) = Inr (error_body (error_message x), 500)"
    using y(1) by simp
  show "uploads (snd (chronicle_harvester_agent request ?w)) =
      [\<lparr>bucket_name = ''nexusscout-raw-data-sriramo-23jun2025-1'',
        name = ''raw_data/2025-06-23T10:15:31.000250-1a2b3c4d.json'',
        data = JsonText (PDict
          [(''id'', PInt 1), (''title'', PStr ''a''),
           (''harvest_timestamp'', PStr ''2025-06-23T10:15:30''),
           (''source_url'', PStr MOCK_DATA_URL), (''agent'', PStr ''ChronicleHarvester'')]) 2,
        content_type = ''application/json''\<rparr>]"
    using y(2)
    by (simp add: example_world_fields example_blobs_1 example_blob_0 example_annotated_0)
qed

lemma example_get:
  "get_outcome (example_world c g u) MOCK_DATA_URL = g"
  by (simp add: example_world_fields)

lemma example_client:
  "client_outcome (example_world c g u) (GCP_PROJECT_ID (example_world c g u)) = c"
  by (simp add: example_world_fields)

lemma example_status_accepted:
  "\<not> (400 \<le> code \<and> code < 600) \<Longrightarrow> raise_for_status (example_response code why body) = Inr ()"
  by (auto simp: raise_for_status_def example_response_def)

lemma example_json: "json_result (example_response code why body) = body"
  by (simp add: example_response_def)

lemma example_run_empty:
  assumes "\<not> (400 \<le> code \<and> code < 600)" and "getslice3 v = Inr []"
  shows "fst (chronicle_harvester_agent request
      (example_world None (Inr (example_response code why (Inr v))) u)) = Inr (success_body [], 200)"
proof -
  let ?w = "example_world None (Inr (example_response code why (Inr v))) u"
  have s: "selected_entries ?w = Inr []"
    using example_selected [OF assms(1), of None why v u] assms(2) by simp
  show ?thesis
    using run_success(1) [OF example_client s, of request] by (simp add: expected_blobs_def)
qed

lemma example_new_uploads:
  "new_uploads (example_world c g u) w' = uploads w'"
  by (simp add: new_uploads_def example_world_fields)

lemma example_single_selected:
  "\<not> (400 \<le> code \<and> code < 600) \<Longrightarrow>
   selected_entries (example_world c (Inr (example_response code why (Inr (PList [e])))) u) = Inr [e]"
  by (simp add: example_selected)

lemma example_run_single:
  assumes "\<not> (400 \<le> code \<and> code < 600)" and "u 0 = None"
  shows "uploads (snd (chronicle_harvester_agent request
      (example_world None (Inr (example_response code why (Inr (PList [PDict kvs])))) u))) =
     [\<lparr>bucket_name = ''nexusscout-raw-data-sriramo-23jun2025-1'',
       name = ''raw_data/2025-06-23T10:15:31.000250-1a2b3c4d.json'',
       data = JsonText (PDict (annotated ''2025-06-23T10:15:30'' kvs)) 2,
       content_type = ''application/json''\<rparr>]"
proof -
  let ?w = "example_world None (Inr (example_response code why (Inr (PList [PDict kvs])))) u"
  have ok: "\<forall>i<length [PDict kvs]. iteration_ok ?w [PDict kvs] i"
    using assms(2) by (simp add: iteration_ok_def example_world_fields)
  show ?thesis
    using run_success(2) [OF example_client example_single_selected [OF assms(1)] ok,
        where request = request]
    by (simp add: example_world_fields example_blobs_1 example_blob_0)
qed

lemma example_annotated_collision:
  "annotated s [(''id'', PInt 7), (''agent'', PStr ''Mallory'')] =
     [(''id'', PInt 7), (''agent'', PStr ''ChronicleHarvester''), (''harvest_timestamp'', PStr s),
      (''source_url'', PStr MOCK_DATA_URL)]"
  by (simp add: annotated_def)


section \<open>The claims\<close>

text \<open>
  C1, as amended. When the GET returns a response that \<^verbatim>\<open>raise_for_status\<close> accepts, its body
  decodes to a list of \<open>M\<close> dicts, and each of the first \<open>min M 3\<close> upload attempts goes
  through, the handler uploads exactly \<open>min M 3\<close> objects, one for each of the first
  entries in their order, and returns the success dict with their \<open>min M 3\<close> paths in
  that order, with the code 200 (with no path when \<open>M = 0\<close>).
\<close>

theorem harvest_stores_first_three:
  assumes "client_outcome w (GCP_PROJECT_ID w) = None"
    and "get_outcome w MOCK_DATA_URL = Inr resp"
    and "raise_for_status resp = Inr ()"
    and "json_result resp = Inr (PList xs)"
    and "\<forall>x\<in>set xs. is_dict x"
    and "\<forall>i<min (length xs) 3. upload_outcome w (attempts w + i) = None"
  shows "fst (chronicle_harvester_agent request w) =
           Inr (success_body (map name (expected_blobs w xs (min (length xs) 3))), 200) \<and>
         new_uploads w (snd (chronicle_harvester_agent request w)) =
           expected_blobs w xs (min (length xs) 3) \<and>
         length (expected_blobs w xs (min (length xs) 3)) = min (length xs) 3"
proof -
  let ?n = "min (length xs) 3"
  have s: "selected_entries w = Inr (take 3 xs)"
    using selected_list [OF assms(2,3,4)] by simp
  have len: "length (take 3 xs) = ?n" by simp
  have ok: "\<forall>i<length (take 3 xs). iteration_ok w (take 3 xs) i"
    using assms(5,6) by (simp add: iteration_ok_def)
  have blobs: "expected_blobs w (take 3 xs) ?n = expected_blobs w xs ?n"
    by (rule expected_blobs_take) simp
  have "fst (chronicle_harvester_agent request w) =
           Inr (success_body (map name (expected_blobs w xs ?n)), 200)"
    using run_success(1) [OF assms(1) s ok, of request] blobs by (simp only: len)
  moreover have "uploads (snd (chronicle_harvester_agent request w)) =
      uploads w @ expected_blobs w xs ?n"
    using run_success(2) [OF assms(1) s ok, of request] blobs by (simp only: len)
  then have "new_uploads w (snd (chronicle_harvester_agent request w)) = expected_blobs w xs ?n"
    by (rule new_uploads_append)
  ultimately show ?thesis by (simp add: length_expected_blobs)
qed

theorem harvest_stores_first_three_witness:
  "fst (chronicle_harvester_agent ()
      (example_world None (Inr (example_response 200 ''OK'' (Inr example_feed))) (\<lambda>n. None))) =
     Inr (success_body [''raw_data/2025-06-23T10:15:31.000250-1a2b3c4d.json'',
                        ''raw_data/2025-06-23T10:15:33.000750-1a2b3c4e.json''], 200) \<and>
   map name (new_uploads
      (example_world None (Inr (example_response 200 ''OK'' (Inr example_feed))) (\<lambda>n. None))
      (snd (chronicle_harvester_agent ()
        (example_world None (Inr (example_response 200 ''OK'' (Inr example_feed))) (\<lambda>n. None))))) =
     [''raw_data/2025-06-23T10:15:31.000250-1a2b3c4d.json'',
      ''raw_data/2025-06-23T10:15:33.000750-1a2b3c4e.json'']"
proof -
  let ?r = "example_response 200 ''OK'' (Inr example_feed)"
  let ?w = "example_world None (Inr ?r) (\<lambda>n. None)"
  let ?xs = "[PDict [(''id'', PInt 1), (''title'', PStr ''a'')],
              PDict [(''id'', PInt 2), (''title'', PStr ''b'')]]"
  have h3: "raise_for_status ?r = Inr ()" by (rule example_status_accepted) simp
  have h4: "json_result ?r = Inr (PList ?xs)" by (simp add: example_json example_feed_def)
  have h5: "\<forall>x\<in>set ?xs. is_dict x" by simp
  have h6: "\<forall>i<min (length ?xs) 3. upload_outcome ?w (attempts ?w + i) = None"
    by (simp add: example_world_fields)
  have two: "min (length ?xs) 3 = Suc (Suc 0)" by simp
  show ?thesis
    using harvest_stores_first_three [OF example_client example_get h3 h4 h5 h6,
        where request = "()"]
    by (simp only: two example_blobs_2 example_blob_0 example_blob_1) simp
qed

theorem harvest_stores_first_three_counterexample:
  "get_outcome
      (example_world None (Inr (example_response 200 ''OK'' (Inr example_feed)))
         (\<lambda>n. Some (OtherException ''503 Service Unavailable''))) MOCK_DATA_URL =
     Inr (example_response 200 ''OK'' (Inr example_feed)) \<and>
   fst (chronicle_harvester_agent ()
      (example_world None (Inr (example_response 200 ''OK'' (Inr example_feed)))
         (\<lambda>n. Some (OtherException ''503 Service Unavailable'')))) =
     Inr (error_body ''An unexpected error occurred: 503 Service Unavailable'', 500) \<and>
   uploads (snd (chronicle_harvester_agent ()
      (example_world None (Inr (example_response 200 ''OK'' (Inr example_feed)))
         (\<lambda>n. Some (OtherException ''503 Service Unavailable''))))) = []"
proof -
  have ok: "\<not> (400 \<le> (200::nat) \<and> (200::nat) < 600)" by simp
  show ?thesis
    using example_run_upload_fails [OF ok, where u = "\<lambda>n. Some (OtherException ''503 Service Unavailable'')"
        and x = "OtherException ''503 Service Unavailable''" and request = "()" and why = "''OK''"]
    by (simp add: example_get error_message_def)
qed

text \<open>
  C2, as amended. For every selected entry that has none of the keys
  \<^verbatim>\<open>harvest_timestamp\<close>, \<^verbatim>\<open>source_url\<close> and \<^verbatim>\<open>agent\<close>, the content of the object stored for it,
  when parsed, is the entry's own items with their values, in their order, followed by
  the three injected ones: \<^verbatim>\<open>harvest_timestamp\<close> with the ISO format of the clock reading of
  line 65, \<^verbatim>\<open>source_url\<close> with the fixed URL, \<^verbatim>\<open>agent\<close> with \<^verbatim>\<open>ChronicleHarvester\<close>; and
  nothing else.
\<close>

theorem stored_record_fields:
  assumes "selected_entries w = Inr sel"
    and "i < length (new_uploads w (snd (chronicle_harvester_agent request w)))"
    and "''harvest_timestamp'' \<notin> fst ` set (items (sel ! i))"
    and "''source_url'' \<notin> fst ` set (items (sel ! i))"
    and "''agent'' \<notin> fst ` set (items (sel ! i))"
  shows "is_dict (sel ! i) \<and>
     json_loads (data (new_uploads w (snd (chronicle_harvester_agent request w)) ! i)) =
       PDict (items (sel ! i) @
         [(''harvest_timestamp'', PStr (isoformat (clock w (ticks w + 2 * i)))),
          (''source_url'', PStr MOCK_DATA_URL),
          (''agent'', PStr ''ChronicleHarvester'')])"
  using stored_object(2) [OF assms(1,2)] stored_content [OF assms(1,2)]
    annotated_fresh [OF assms(3,4,5)]
  by simp

theorem stored_record_fields_witness:
  "json_loads (data (new_uploads
      (example_world None (Inr (example_response 200 ''OK'' (Inr example_feed))) (\<lambda>n. None))
      (snd (chronicle_harvester_agent ()
        (example_world None (Inr (example_response 200 ''OK'' (Inr example_feed))) (\<lambda>n. None)))) ! 0)) =
   PDict [(''id'', PInt 1), (''title'', PStr ''a''),
          (''harvest_timestamp'', PStr ''2025-06-23T10:15:30''),
          (''source_url'', PStr ''https://jsonplaceholder.typicode.com/posts''),
          (''agent'', PStr ''ChronicleHarvester'')]"
proof -
  let ?w = "example_world None (Inr (example_response 200 ''OK'' (Inr example_feed))) (\<lambda>n. None)"
  let ?sel = "[PDict [(''id'', PInt 1), (''title'', PStr ''a'')],
               PDict [(''id'', PInt 2), (''title'', PStr ''b'')]]"
  have ok: "\<not> (400 \<le> (200::nat) \<and> (200::nat) < 600)" by simp
  have s: "selected_entries ?w = Inr ?sel" by (rule example_feed_selected [OF ok])
  have i: "0 < length (new_uploads ?w (snd (chronicle_harvester_agent () ?w)))"
    using example_run_ok(2) [OF ok, where u = "\<lambda>n. None" and request = "()" and why = "''OK''"]
    by (simp add: example_new_uploads)
  have f: "''harvest_timestamp'' \<notin> fst ` set (items (?sel ! 0))"
    "''source_url'' \<notin> fst ` set (items (?sel ! 0))"
    "''agent'' \<notin> fst ` set (items (?sel ! 0))"
    by simp_all
  show ?thesis
    using stored_record_fields [OF s i f] example_stamp_0
    by (simp add: example_world_fields MOCK_DATA_URL_def)
qed

theorem colliding_key_counterexample:
  "selected_entries
      (example_world None
         (Inr (example_response 200 ''OK''
            (Inr (PList [PDict [(''id'', PInt 7), (''agent'', PStr ''Mallory'')]]))))
         (\<lambda>n. None)) =
     Inr [PDict [(''id'', PInt 7), (''agent'', PStr ''Mallory'')]] \<and>
   map (\<lambda>b. json_loads (data b))
     (uploads (snd (chronicle_harvester_agent ()
        (example_world None
           (Inr (example_response 200 ''OK''
              (Inr (PList [PDict [(''id'', PInt 7), (''agent'', PStr ''Mallory'')]]))))
           (\<lambda>n. None))))) =
     [PDict [(''id'', PInt 7), (''agent'', PStr ''ChronicleHarvester''),
             (''harvest_timestamp'', PStr ''2025-06-23T10:15:30''),
             (''source_url'', PStr ''https://jsonplaceholder.typicode.com/posts'')]]"
proof -
  have ok: "\<not> (400 \<le> (200::nat) \<and> (200::nat) < 600)" by simp
  show ?thesis
    using example_run_single [OF ok, where u = "\<lambda>n. None" and request = "()" and why = "''OK''"
        and kvs = "[(''id'', PInt 7), (''agent'', PStr ''Mallory'')]"]
    by (simp add: example_single_selected example_annotated_collision MOCK_DATA_URL_def)
qed







text \<open>
  C5. When the annotation or the upload of the selected entry number \<open>k\<close> raises, after
  the entries before it went through, the uploads of the entries \<open>0\<close> to \<open>k - 1\<close> stay,
  and the handler returns the error dict with the code 500, which has no
  \<^verbatim>\<open>uploaded_files\<close>. A success dict is returned only when every selected entry went
  through, and then every one of them was uploaded and its path is in the list.
\<close>

theorem failure_keeps_earlier_uploads:
  assumes c: "client_outcome w (GCP_PROJECT_ID w) = None" and s: "selected_entries w = Inr sel"
  shows "(k < length sel \<and> (\<forall>i<k. iteration_ok w sel i) \<and> \<not> iteration_ok w sel k \<longrightarrow>
            (\<exists>x. fst (chronicle_harvester_agent request w) = Inr (error_body (error_message x), 500) \<and>
                 map_of (items (error_body (error_message x))) ''uploaded_files'' = None) \<and>
            uploads (snd (chronicle_harvester_agent request w)) = uploads w @ expected_blobs w sel k) \<and>
         (\<forall>fs code. fst (chronicle_harvester_agent request w) = Inr (success_body fs, code) \<longrightarrow>
            (\<forall>i<length sel. iteration_ok w sel i) \<and>
            uploads (snd (chronicle_harvester_agent request w)) =
              uploads w @ expected_blobs w sel (length sel) \<and>
            fs = map name (expected_blobs w sel (length sel)))"
proof -
  have fail: "(\<exists>x. fst (chronicle_harvester_agent request w) = Inr (error_body (error_message x), 500) \<and>
                 map_of (items (error_body (error_message x))) ''uploaded_files'' = None) \<and>
            uploads (snd (chronicle_harvester_agent request w)) = uploads w @ expected_blobs w sel k"
    if k: "k < length sel" "\<forall>i<k. iteration_ok w sel i" "\<not> iteration_ok w sel k"
  proof -
    from run_failure [OF c s k, of request]
    obtain x where x: "fst (chronicle_harvester_agent request w) = Inr (error_body (error_message x), 500)"
      and u: "uploads (snd (chronicle_harvester_agent request w)) = uploads w @ expected_blobs w sel k"
      by blast
    have "map_of (items (error_body (error_message x))) ''uploaded_files'' = None"
      by (simp add: error_body_def)
    with x have "\<exists>x. fst (chronicle_harvester_agent request w) = Inr (error_body (error_message x), 500) \<and>
        map_of (items (error_body (error_message x))) ''uploaded_files'' = None"
      by (intro exI [of _ x]) simp
    then show ?thesis using u by simp
  qed
  have succ: "(\<forall>i<length sel. iteration_ok w sel i) \<and>
            uploads (snd (chronicle_harvester_agent request w)) =
              uploads w @ expected_blobs w sel (length sel) \<and>
            fs = map name (expected_blobs w sel (length sel))"
    if r: "fst (chronicle_harvester_agent request w) = Inr (success_body fs, code)" for fs code
  proof (cases "\<forall>i<length sel. iteration_ok w sel i")
    case True
    show ?thesis
      using run_success [OF c s True, of request] r True by (simp add: success_body_inject)
  next
    case False
    then obtain j where j: "j < length sel" "\<forall>i<j. iteration_ok w sel i" "\<not> iteration_ok w sel j"
      using first_failure [of "length sel" "iteration_ok w sel"] by blast
    from run_failure [OF c s j, of request]
    obtain x where "fst (chronicle_harvester_agent request w) = Inr (error_body (error_message x), 500)"
      by blast
    then show ?thesis using r by (simp add: success_is_not_error)
  qed
  have A: "k < length sel \<and> (\<forall>i<k. iteration_ok w sel i) \<and> \<not> iteration_ok w sel k \<longrightarrow>
            (\<exists>x. fst (chronicle_harvester_agent request w) = Inr (error_body (error_message x), 500) \<and>
                 map_of (items (error_body (error_message x))) ''uploaded_files'' = None) \<and>
            uploads (snd (chronicle_harvester_agent request w)) = uploads w @ expected_blobs w sel k"
    by (intro impI, elim conjE, rule fail)
  have B: "\<forall>fs code. fst (chronicle_harvester_agent request w) = Inr (success_body fs, code) \<longrightarrow>
            (\<forall>i<length sel. iteration_ok w sel i) \<and>
            uploads (snd (chronicle_harvester_agent request w)) =
              uploads w @ expected_blobs w sel (length sel) \<and>
            fs = map name (expected_blobs w sel (length sel))"
    by (intro allI impI, rule succ)
  show ?thesis using A B by (rule conjI)
qed

theorem failure_keeps_earlier_uploads_witness:
  "fst (chronicle_harvester_agent ()
      (example_world None (Inr (example_response 200 ''OK'' (Inr example_feed)))
         (\<lambda>n. if n = Suc 0 then Some (OtherException ''503 Service Unavailable'') else None))) =
     Inr (error_body ''An unexpected error occurred: 503 Service Unavailable'', 500) \<and>
   map name (uploads (snd (chronicle_harvester_agent ()
      (example_world None (Inr (example_response 200 ''OK'' (Inr example_feed)))
         (\<lambda>n. if n = Suc 0 then Some (OtherException ''503 Service Unavailable'') else None))))) =
     [''raw_data/2025-06-23T10:15:31.000250-1a2b3c4d.json''] \<and>
   map name (uploads (snd (chronicle_harvester_agent ()
      (example_world None (Inr (example_response 200 ''OK'' (Inr example_feed))) (\<lambda>n. None))))) =
     [''raw_data/2025-06-23T10:15:31.000250-1a2b3c4d.json'',
      ''raw_data/2025-06-23T10:15:33.000750-1a2b3c4e.json'']"
proof -
  let ?u = "\<lambda>n. if n = Suc 0 then Some (OtherException ''503 Service Unavailable'') else None"
  let ?g = "Inr (example_response 200 ''OK'' (Inr example_feed))"
  let ?w = "example_world None ?g ?u"
  let ?v = "example_world None ?g (\<lambda>n. None)"
  let ?sel = "[PDict [(''id'', PInt 1), (''title'', PStr ''a'')],
               PDict [(''id'', PInt 2), (''title'', PStr ''b'')]]"
  have ok: "\<not> (400 \<le> (200::nat) \<and> (200::nat) < 600)" by simp
  have c: "client_outcome ?w (GCP_PROJECT_ID ?w) = None"
    and c': "client_outcome ?v (GCP_PROJECT_ID ?v) = None" by (rule example_client)+
  have s: "selected_entries ?w = Inr ?sel" and s': "selected_entries ?v = Inr ?sel"
    by (rule example_feed_selected [OF ok])+
  have k: "Suc 0 < length ?sel \<and> (\<forall>i<Suc 0. iteration_ok ?w ?sel i) \<and> \<not> iteration_ok ?w ?sel (Suc 0)"
    by (simp add: iteration_ok_def example_world_fields)
  have r: "fst (chronicle_harvester_agent () ?v) =
     Inr (success_body [''raw_data/2025-06-23T10:15:31.000250-1a2b3c4d.json'',
                        ''raw_data/2025-06-23T10:15:33.000750-1a2b3c4e.json''], 200)"
    by (rule example_run_ok(1) [OF ok]) simp_all
  have f: "fst (chronicle_harvester_agent () ?w) =
     Inr (error_body ''An unexpected error occurred: 503 Service Unavailable'', 500)"
    using example_run_second_upload_fails(1) [OF ok, where u = ?u
        and x = "OtherException ''503 Service Unavailable''" and request = "()" and why = "''OK''"]
    by (simp add: error_message_def)
  show ?thesis
    using failure_keeps_earlier_uploads [OF c s, where k = "Suc 0" and request = "()"]
      failure_keeps_earlier_uploads [OF c' s', where k = "Suc 0" and request = "()"]
      k r f
    by (simp add: example_world_fields example_blobs_1 example_blobs_2 example_blob_0 example_blob_1)
qed

text \<open>
  C6, as amended. When the GET returns a response that \<^verbatim>\<open>raise_for_status\<close> accepts and the
  decoding of its body raises, or gives a value that is a dict, a number, a boolean,
  \<^verbatim>\<open>None\<close>, a string that is not empty, or a list with an element that is not a dict among
  its first three, the handler returns an error dict with the code 500.
\<close>

theorem rejected_feed_is_an_error:
  assumes "client_outcome w (GCP_PROJECT_ID w) = None"
    and "get_outcome w MOCK_DATA_URL = Inr resp"
    and "raise_for_status resp = Inr ()"
    and "(\<exists>e. json_result resp = Inl e) \<or> (\<exists>v. json_result resp = Inr v \<and> rejected_feed v)"
  shows "\<exists>m. fst (chronicle_harvester_agent request w) = Inr (error_body m, 500)"
  using assms(4)
proof
  assume "\<exists>e. json_result resp = Inl e"
  then obtain e where "json_result resp = Inl e" by blast
  then have "selected_entries w = Inl e"
    using assms(2,3) by (simp add: selected_entries_def)
  from run_no_selection(1) [OF assms(1) this, of request]
  show ?thesis by (intro exI [of _ "error_message e"])
next
  assume "\<exists>v. json_result resp = Inr v \<and> rejected_feed v"
  then obtain v where v: "json_result resp = Inr v" and r: "rejected_feed v" by blast
  have s: "selected_entries w = getslice3 v" by (rule selected_list [OF assms(2,3) v])
  show ?thesis
  proof (cases "getslice3 v")
    case (Inl e)
    from run_no_selection(1) [OF assms(1), of e request] s Inl
    show ?thesis by (intro exI [of _ "error_message e"]) simp
  next
    case (Inr sel)
    have "\<exists>i<length sel. \<not> is_dict (sel ! i)"
    proof (cases v)
      case (PList xs)
      then have "\<exists>x\<in>set sel. \<not> is_dict x" using r Inr by (auto simp: list_ex_iff)
      then show ?thesis by (metis in_set_conv_nth)
    next
      case (PStr str)
      then have "sel \<noteq> []" and "\<forall>x\<in>set sel. \<not> is_dict x" using r Inr by auto
      then have "0 < length sel" and "\<not> is_dict (sel ! 0)" by (cases sel; simp)+
      then show ?thesis by (intro exI [of _ 0]) simp
    qed (use Inr in simp_all)
    moreover have "selected_entries w = Inr sel" using s Inr by simp
    ultimately show ?thesis by (rule run_not_all_dicts [OF assms(1), rotated])
  qed
qed

theorem rejected_feed_is_an_error_witness:
  "rejected_feed (PDict [(''error'', PStr ''maintenance'')]) \<and>
   fst (chronicle_harvester_agent ()
      (example_world None
         (Inr (example_response 200 ''OK'' (Inr (PDict [(''error'', PStr ''maintenance'')]))))
         (\<lambda>n. None))) =
     Inr (error_body (''An unexpected error occurred: unhashable type: '' @ quoted ''slice''), 500)"
proof -
  let ?v = "PDict [(''error'', PStr ''maintenance'')]"
  let ?r = "example_response 200 ''OK'' (Inr ?v)"
  let ?w = "example_world None (Inr ?r) (\<lambda>n. None)"
  have h3: "raise_for_status ?r = Inr ()" by (rule example_status_accepted) simp
  have h4: "(\<exists>e. json_result ?r = Inl e) \<or> (\<exists>v. json_result ?r = Inr v \<and> rejected_feed v)"
    by (simp add: example_json)
  have s: "selected_entries ?w = Inl (TypeError (''unhashable type: '' @ quoted ''slice''))"
    by (simp add: selected_list [OF example_get h3 example_json])
  show ?thesis
    using rejected_feed_is_an_error [OF example_client example_get h3 h4, where request = "()"]
      run_no_selection(1) [OF example_client s, where request = "()"]
    by (simp add: error_message_def)
qed

theorem empty_string_feed_counterexample:
  "json_result (example_response 200 ''OK'' (Inr (PStr []))) = Inr (PStr []) \<and>
   fst (chronicle_harvester_agent ()
      (example_world None (Inr (example_response 200 ''OK'' (Inr (PStr [])))) (\<lambda>n. None))) =
     Inr (success_body [], 200)"
proof -
  have ok: "\<not> (400 \<le> (200::nat) \<and> (200::nat) < 600)" by simp
  show ?thesis
    using example_run_empty [OF ok, where v = "PStr []" and request = "()" and why = "''OK''"
        and u = "\<lambda>n. None"]
    by (simp add: example_json)
qed



text \<open>
  C8. The request does not influence the run: for any two request values, the handler
  started in the same world (the same outcomes of the client construction, of the GET and
  of the uploads, the same clock readings and the same UUIDs) returns the same result and
  leaves the same world, with the same uploads.
\<close>

theorem request_is_unused:
  "chronicle_harvester_agent request1 w = chronicle_harvester_agent request2 w"
  by (simp add: chronicle_harvester_agent_def)

text \<open>
  C9. Whatever the handler returns is a dict with a status code. The status is
  \<^verbatim>\<open>success\<close> or \<^verbatim>\<open>error\<close>; it is \<^verbatim>\<open>success\<close> exactly when the code is 200, and the dict
  is then the status with the list of uploaded paths; it is \<^verbatim>\<open>error\<close> exactly when the code
  is 500, and the dict is then the status with a message string.
\<close>

theorem result_shape:
  assumes "fst (chronicle_harvester_agent request w) = Inr (body, code)"
  shows "is_dict body \<and>
    (map_of (items body) ''status'' = Some (PStr ''success'') \<or>
     map_of (items body) ''status'' = Some (PStr ''error'')) \<and>
    (map_of (items body) ''status'' = Some (PStr ''success'') \<longleftrightarrow> code = 200) \<and>
    (map_of (items body) ''status'' = Some (PStr ''error'') \<longleftrightarrow> code = 500) \<and>
    (code = 200 \<longrightarrow> (\<exists>fs. body = success_body fs \<and>
        map_of (items body) ''uploaded_files'' = Some (PList (map PStr fs)))) \<and>
    (code = 500 \<longrightarrow> (\<exists>m. body = error_body m \<and>
        map_of (items body) ''message'' = Some (PStr m)))"
proof (cases "client_outcome w (GCP_PROJECT_ID w)")
  case (Some x)
  then show ?thesis using assms by (simp add: run_no_client)
next
  case None
  show ?thesis
  proof (cases "fst (try_block (print ''Chronicle Harvester Agent: Initiating data collection...'' w))")
    case (Inl e)
    then have b: "body = error_body (error_message e)" and c: "code = 500"
      using assms run_returns [OF None, of request] by simp_all
    have "map_of (items body) ''message'' = Some (PStr (error_message e))"
      and "map_of (items body) ''status'' = Some (PStr ''error'')" and "is_dict body"
      by (simp_all add: b error_body_def)
    then show ?thesis using b c by auto
  next
    case (Inr fs)
    then have b: "body = success_body fs" and c: "code = 200"
      using assms run_returns [OF None, of request] by simp_all
    have "map_of (items body) ''uploaded_files'' = Some (PList (map PStr fs))"
      and "map_of (items body) ''status'' = Some (PStr ''success'')" and "is_dict body"
      by (simp_all add: b success_body_def)
    then show ?thesis using b c by auto
  qed
qed

theorem result_shape_witness:
  "fst (chronicle_harvester_agent ()
      (example_world None (Inr (example_response 200 ''OK'' (Inr example_feed))) (\<lambda>n. None))) =
     Inr (success_body [''raw_data/2025-06-23T10:15:31.000250-1a2b3c4d.json'',
                        ''raw_data/2025-06-23T10:15:33.000750-1a2b3c4e.json''], 200) \<and>
   map_of (items (success_body [''raw_data/2025-06-23T10:15:31.000250-1a2b3c4d.json'',
                        ''raw_data/2025-06-23T10:15:33.000750-1a2b3c4e.json''])) ''status'' =
     Some (PStr ''success'') \<and>
   map_of (items (success_body [''raw_data/2025-06-23T10:15:31.000250-1a2b3c4d.json'',
                        ''raw_data/2025-06-23T10:15:33.000750-1a2b3c4e.json''])) ''uploaded_files'' =
     Some (PList [PStr ''raw_data/2025-06-23T10:15:31.000250-1a2b3c4d.json'',
                  PStr ''raw_data/2025-06-23T10:15:33.000750-1a2b3c4e.json'']) \<and>
   fst (chronicle_harvester_agent ()
      (example_world None (Inr (example_response 500 ''Internal Server Error'' (Inr example_feed)))
         (\<lambda>n. None))) =
     Inr (error_body (''HTTP request failed: 500 Server Error: Internal Server Error for url: '' @
          ''https://jsonplaceholder.typicode.com/posts''), 500) \<and>
   map_of (items (error_body (''HTTP request failed: 500 Server Error: Internal Server Error for url: '' @
          ''https://jsonplaceholder.typicode.com/posts''))) ''status'' = Some (PStr ''error'')"
proof -
  have ok: "fst (chronicle_harvester_agent ()
      (example_world None (Inr (example_response 200 ''OK'' (Inr example_feed))) (\<lambda>n. None))) =
     Inr (success_body [''raw_data/2025-06-23T10:15:31.000250-1a2b3c4d.json'',
                        ''raw_data/2025-06-23T10:15:33.000750-1a2b3c4e.json''], 200)"
    by (rule example_run_ok(1)) simp_all
  note err = example_run_http_500 [of "()" "Inr example_feed" "\<lambda>n. None"]
  show ?thesis
    using result_shape [OF ok] result_shape [OF err] ok err
    by (simp add: success_body_def error_body_def)
qed

text \<open>
  C10. In the object stored for a selected entry, the keys \<^verbatim>\<open>harvest_timestamp\<close>,
  \<^verbatim>\<open>source_url\<close> and \<^verbatim>\<open>agent\<close> have the injected values whatever the entry had under
  them, every other key has the value the entry had, and the keys of the entry keep
  their places: a key among the three that the entry already had is overwritten where
  it stands, and the ones it did not have follow at the end.
\<close>

theorem annotation_overwrites:
  assumes "selected_entries w = Inr sel"
    and "i < length (new_uploads w (snd (chronicle_harvester_agent request w)))"
  shows "map_of (items (json_loads (data (new_uploads w (snd (chronicle_harvester_agent request w)) ! i))))
           ''harvest_timestamp'' = Some (PStr (isoformat (clock w (ticks w + 2 * i)))) \<and>
         map_of (items (json_loads (data (new_uploads w (snd (chronicle_harvester_agent request w)) ! i))))
           ''source_url'' = Some (PStr MOCK_DATA_URL) \<and>
         map_of (items (json_loads (data (new_uploads w (snd (chronicle_harvester_agent request w)) ! i))))
           ''agent'' = Some (PStr ''ChronicleHarvester'') \<and>
         (\<forall>k. k \<notin> {''harvest_timestamp'', ''source_url'', ''agent''} \<longrightarrow>
            map_of (items (json_loads (data (new_uploads w (snd (chronicle_harvester_agent request w)) ! i)))) k =
            map_of (items (sel ! i)) k) \<and>
         map fst (items (json_loads (data (new_uploads w (snd (chronicle_harvester_agent request w)) ! i)))) =
           map fst (items (sel ! i)) @
           filter (\<lambda>k. k \<notin> fst ` set (items (sel ! i))) [''harvest_timestamp'', ''source_url'', ''agent'']"
  by (simp add: stored_content [OF assms] annotated_map_of annotated_keys)

theorem annotation_overwrites_witness:
  "map_of (items (json_loads (data (new_uploads
      (example_world None
         (Inr (example_response 200 ''OK''
            (Inr (PList [PDict [(''id'', PInt 7), (''agent'', PStr ''Mallory'')]]))))
         (\<lambda>n. None))
      (snd (chronicle_harvester_agent ()
        (example_world None
           (Inr (example_response 200 ''OK''
              (Inr (PList [PDict [(''id'', PInt 7), (''agent'', PStr ''Mallory'')]]))))
           (\<lambda>n. None)))) ! 0)))) ''agent'' = Some (PStr ''ChronicleHarvester'') \<and>
   map_of (items (json_loads (data (new_uploads
      (example_world None
         (Inr (example_response 200 ''OK''
            (Inr (PList [PDict [(''id'', PInt 7), (''agent'', PStr ''Mallory'')]]))))
         (\<lambda>n. None))
      (snd (chronicle_harvester_agent ()
        (example_world None
           (Inr (example_response 200 ''OK''
              (Inr (PList [PDict [(''id'', PInt 7), (''agent'', PStr ''Mallory'')]]))))
           (\<lambda>n. None)))) ! 0)))) ''id'' = Some (PInt 7) \<and>
   map fst (items (json_loads (data (new_uploads
      (example_world None
         (Inr (example_response 200 ''OK''
            (Inr (PList [PDict [(''id'', PInt 7), (''agent'', PStr ''Mallory'')]]))))
         (\<lambda>n. None))
      (snd (chronicle_harvester_agent ()
        (example_world None
           (Inr (example_response 200 ''OK''
              (Inr (PList [PDict [(''id'', PInt 7), (''agent'', PStr ''Mallory'')]]))))
           (\<lambda>n. None)))) ! 0)))) = [''id'', ''agent'', ''harvest_timestamp'', ''source_url'']"
proof -
  let ?e = "PDict [(''id'', PInt 7), (''agent'', PStr ''Mallory'')]"
  let ?w = "example_world None (Inr (example_response 200 ''OK'' (Inr (PList [?e])))) (\<lambda>n. None)"
  have ok: "\<not> (400 \<le> (200::nat) \<and> (200::nat) < 600)" by simp
  have s: "selected_entries ?w = Inr [?e]" by (rule example_single_selected [OF ok])
  have i: "0 < length (new_uploads ?w (snd (chronicle_harvester_agent () ?w)))"
    using example_run_single [OF ok, where u = "\<lambda>n. None" and request = "()" and why = "''OK''"
        and kvs = "[(''id'', PInt 7), (''agent'', PStr ''Mallory'')]"]
    by (simp add: example_new_uploads)
  have k: "''id'' \<notin> {''harvest_timestamp'', ''source_url'', ''agent''}" by simp
  show ?thesis
    using annotation_overwrites [OF s i] k by simp
qed

end
